theory Spec2Isabelle
  imports Main "HOL-Library.Multiset"
begin

section \<open>Values handled by the routes\<close>

text \<open>
  A JavaScript number as the routes meet it: \<open>parseInt(req.params.id)\<close> yields an integer
  or \<open>NaN\<close>, and \<open>oldNotes.length + 1\<close> yields an integer.
\<close>

datatype number = Num int | NaN

text \<open>\<open>a === b\<close> on numbers: \<open>NaN\<close> is equal to nothing, not even to itself.\<close>

fun strict_eq :: "number \<Rightarrow> number \<Rightarrow> bool" where
  "strict_eq (Num a) (Num b) = (a = b)"
| "strict_eq _ _ = False"

text \<open>
  What a field declared \<open>string\<close> holds at run time: a string, \<open>undefined\<close> when the
  request body has no such key, or \<open>null\<close>. On these values \<open>===\<close> is equality.
\<close>

datatype jsval = Undefined | Null | Str string

text \<open>\<open>a ?? b\<close>: the right operand replaces a left operand that is \<open>undefined\<close> or \<open>null\<close>.\<close>

fun nullish :: "jsval \<Rightarrow> jsval \<Rightarrow> jsval" where
  "nullish Undefined b = b"
| "nullish Null b = b"
| "nullish (Str s) b = Str s"

subsection \<open>types/notes.ts\<close>

record Note =
  id_note :: number
  title :: jsval
  content :: jsval
  user :: jsval

text \<open>The constructor \<open>new Note(id, title, content, user)\<close>.\<close>

definition new_Note :: "number \<Rightarrow> jsval \<Rightarrow> jsval \<Rightarrow> jsval \<Rightarrow> Note" where
  "new_Note i t c u = \<lparr>id_note = i, title = t, content = c, user = u\<rparr>"

record NotesRaw =
  notes_list :: "Note list"

subsection \<open>Requests and responses\<close>

text \<open>
  The parts of an Express request that the routes read. \<open>params_id\<close> is the value of
  \<open>parseInt(req.params.id)\<close>, the \<open>body_\<close> fields are \<open>req.body.title\<close>,
  \<open>req.body.content\<close> and \<open>req.body.user\<close>, and \<open>authorization\<close> is
  \<open>req.headers.authorization\<close>.
\<close>

record Request =
  params_id :: number
  body_title :: jsval
  body_content :: jsval
  body_user :: jsval
  authorization :: jsval

text \<open>
  What \<open>res.status(n).send(x)\<close> sends. \<open>Nicht_gefunden i\<close> is the text
  \<open>Die Notiz mit ID ${id} wurde nicht gefunden.\<close> and \<open>Not_found i\<close> the text
  \<open>Note with ID ${id} was not found.\<close>, each with the number \<open>i\<close> interpolated.
\<close>

datatype body = No_body | Note_body Note | Notes_body "Note list"
  | Nicht_gefunden number | Not_found number

record Response =
  status :: nat
  sent :: body

section \<open>services/data\<close>

text \<open>
  Modelled from the spec: \<open>getNotes\<close> of services/data, which is not among the sources.
  The store "holds an ordered sequence of Notes" and \<open>list()\<close> "returns every note
  currently held", read-only.
\<close>

definition getNotes :: "NotesRaw \<Rightarrow> Note list" where
  "getNotes st = notes_list st"

text \<open>
  Modelled from the spec: \<open>writeNotesToFile\<close> of services/data, which is not among the
  sources. "The entire collection is serialized and overwritten as a single unit on
  every mutating operation."
\<close>

definition writeNotesToFile :: "Note list \<Rightarrow> NotesRaw \<Rightarrow> NotesRaw" where
  "writeNotesToFile ns st = st\<lparr>notes_list := ns\<rparr>"

text \<open>
  Modelled from the spec: \<open>getNoteById\<close> of services/data, which is not among the
  sources. It "returns the unique note with that id, or signals not found - never throws
  for a missing id". The lookup is the one that the route \<open>GET /:id\<close> of
  routes/notes_mit_kommentaren.ts writes out, \<open>notes.find(note => note.id === id)\<close>.
\<close>

definition getNoteById :: "number \<Rightarrow> NotesRaw \<Rightarrow> Note option" where
  "getNoteById i st = find (\<lambda>note. strict_eq (id_note note) i) (getNotes st)"

section \<open>routes/notes\_mit\_kommentaren.ts\<close>

text \<open>
  Each route callback takes the request and the store and returns the response with the
  store it leaves behind.
\<close>

text \<open>
  \<open>notesRouter.post('/')\<close>. \<open>oldNotes.push(newNote)\<close> extends the array that is then
  handed to \<open>writeNotesToFile\<close>.
\<close>

definition post_kommentaren :: "Request \<Rightarrow> NotesRaw \<Rightarrow> Response \<times> NotesRaw" where
  "post_kommentaren req st =
     (let title' = body_title req;
          content' = body_content req;
          user' = body_user req;
          oldNotes = getNotes st;
          id' = Num (int (length oldNotes) + 1);
          newNote = new_Note id' title' content' user';
          oldNotes' = oldNotes @ [newNote]
      in (\<lparr>status = 204, sent = No_body\<rparr>, writeNotesToFile oldNotes' st))"

text \<open>\<open>notesRouter.get('/')\<close>: every saved note, whoever asks.\<close>

definition get_kommentaren :: "Request \<Rightarrow> NotesRaw \<Rightarrow> Response \<times> NotesRaw" where
  "get_kommentaren req st =
     (let notes' = getNotes st
      in (\<lparr>status = 200, sent = Notes_body notes'\<rparr>, st))"

text \<open>\<open>notesRouter.get('/:id')\<close>, with the lookup written out.\<close>

definition get_id_kommentaren :: "Request \<Rightarrow> NotesRaw \<Rightarrow> Response \<times> NotesRaw" where
  "get_id_kommentaren req st =
     (let id' = params_id req;
          notes' = getNotes st;
          note = find (\<lambda>note. strict_eq (id_note note) id') notes'
      in case note of
           None \<Rightarrow> (\<lparr>status = 404, sent = Not_found id'\<rparr>, st)
         | Some n \<Rightarrow> (\<lparr>status = 200, sent = Note_body n\<rparr>, st))"

text \<open>\<open>notesRouter.put('/:id')\<close>\<close>

definition put_id_kommentaren :: "Request \<Rightarrow> NotesRaw \<Rightarrow> Response \<times> NotesRaw" where
  "put_id_kommentaren req st =
     (let title' = body_title req;
          content' = body_content req;
          user' = body_user req;
          id' = params_id req;
          oldNote = getNoteById id' st
      in case oldNote of
           None \<Rightarrow> (\<lparr>status = 404, sent = Nicht_gefunden id'\<rparr>, st)
         | Some _ \<Rightarrow>
             (let oldNotes = getNotes st;
                  filteredNotes = filter (\<lambda>note. \<not> strict_eq (id_note note) id') oldNotes;
                  newNote = new_Note id' title' content' user';
                  filteredNotes' = filteredNotes @ [newNote]
              in (\<lparr>status = 204, sent = No_body\<rparr>, writeNotesToFile filteredNotes' st)))"

text \<open>\<open>notesRouter.patch('/:id')\<close>\<close>

definition patch_id_kommentaren :: "Request \<Rightarrow> NotesRaw \<Rightarrow> Response \<times> NotesRaw" where
  "patch_id_kommentaren req st =
     (let id' = params_id req;
          oldNote = getNoteById id' st
      in case oldNote of
           None \<Rightarrow> (\<lparr>status = 404, sent = Nicht_gefunden id'\<rparr>, st)
         | Some old \<Rightarrow>
             (let title' = nullish (body_title req) (title old);
                  content' = nullish (body_content req) (content old);
                  user' = nullish (body_user req) (user old);
                  oldNotes = getNotes st;
                  filteredNotes = filter (\<lambda>note. \<not> strict_eq (id_note note) id') oldNotes;
                  newNote = new_Note id' title' content' user';
                  filteredNotes' = filteredNotes @ [newNote]
              in (\<lparr>status = 204, sent = No_body\<rparr>, writeNotesToFile filteredNotes' st)))"

text \<open>\<open>notesRouter.delete('/:id')\<close>\<close>

definition delete_id_kommentaren :: "Request \<Rightarrow> NotesRaw \<Rightarrow> Response \<times> NotesRaw" where
  "delete_id_kommentaren req st =
     (let id' = params_id req;
          oldNote = getNoteById id' st
      in case oldNote of
           None \<Rightarrow> (\<lparr>status = 404, sent = Nicht_gefunden id'\<rparr>, st)
         | Some _ \<Rightarrow>
             (let oldNotes = getNotes st;
                  filteredNotes = filter (\<lambda>note. \<not> strict_eq (id_note note) id') oldNotes
              in (\<lparr>status = 204, sent = No_body\<rparr>, writeNotesToFile filteredNotes st)))"

text \<open>
  The router of the file: the method and path of a request select the callback. A list of
  requests is served one after the other, each on the store the one before left behind.
\<close>

datatype call = POST Request | GET Request | GET_id Request
  | PUT_id Request | PATCH_id Request | DELETE_id Request

fun notesRouter_kommentaren :: "call \<Rightarrow> NotesRaw \<Rightarrow> Response \<times> NotesRaw" where
  "notesRouter_kommentaren (POST req) st = post_kommentaren req st"
| "notesRouter_kommentaren (GET req) st = get_kommentaren req st"
| "notesRouter_kommentaren (GET_id req) st = get_id_kommentaren req st"
| "notesRouter_kommentaren (PUT_id req) st = put_id_kommentaren req st"
| "notesRouter_kommentaren (PATCH_id req) st = patch_id_kommentaren req st"
| "notesRouter_kommentaren (DELETE_id req) st = delete_id_kommentaren req st"

fun serve :: "call list \<Rightarrow> NotesRaw \<Rightarrow> Response list \<times> NotesRaw" where
  "serve [] st = ([], st)"
| "serve (c # cs) st =
     (case notesRouter_kommentaren c st of
        (r, st') \<Rightarrow> (case serve cs st' of (rs, st'') \<Rightarrow> (r # rs, st'')))"

section \<open>routes/notes.ts\<close>

text \<open>
  The callbacks of this file run once the middleware \<open>hasAuthentication\<close> has passed the
  request on. They call \<open>addNote\<close>, \<open>updateNote\<close> and \<open>deleteNoteById\<close> of services/data,
  which is not among the sources: each is a parameter of the callback that calls it.
\<close>

definition post_notes ::
  "(jsval \<Rightarrow> jsval \<Rightarrow> jsval \<Rightarrow> NotesRaw \<Rightarrow> NotesRaw) \<Rightarrow> Request \<Rightarrow> NotesRaw \<Rightarrow> Response \<times> NotesRaw" where
  "post_notes addNote req st =
     (let title' = body_title req;
          content' = body_content req;
          user' = body_user req
      in (\<lparr>status = 204, sent = No_body\<rparr>, addNote title' content' user' st))"

definition get_notes :: "Request \<Rightarrow> NotesRaw \<Rightarrow> Response \<times> NotesRaw" where
  "get_notes req st =
     (let user' = authorization req;
          notes' = filter (\<lambda>note. user note = user') (getNotes st)
      in (\<lparr>status = 200, sent = Notes_body notes'\<rparr>, st))"

definition get_id_notes :: "Request \<Rightarrow> NotesRaw \<Rightarrow> Response \<times> NotesRaw" where
  "get_id_notes req st =
     (let id' = params_id req;
          note = getNoteById id' st
      in case note of
           None \<Rightarrow> (\<lparr>status = 404, sent = Nicht_gefunden id'\<rparr>, st)
         | Some n \<Rightarrow> (\<lparr>status = 200, sent = Note_body n\<rparr>, st))"

definition put_id_notes ::
  "(number \<Rightarrow> jsval \<Rightarrow> jsval \<Rightarrow> jsval \<Rightarrow> NotesRaw \<Rightarrow> NotesRaw) \<Rightarrow> Request \<Rightarrow> NotesRaw \<Rightarrow> Response \<times> NotesRaw" where
  "put_id_notes updateNote req st =
     (let title' = body_title req;
          content' = body_content req;
          user' = body_user req;
          id' = params_id req;
          oldNote = getNoteById id' st
      in case oldNote of
           None \<Rightarrow> (\<lparr>status = 404, sent = Nicht_gefunden id'\<rparr>, st)
         | Some _ \<Rightarrow>
             (\<lparr>status = 204, sent = No_body\<rparr>, updateNote id' title' content' user' st))"

definition patch_id_notes ::
  "(number \<Rightarrow> jsval \<Rightarrow> jsval \<Rightarrow> jsval \<Rightarrow> NotesRaw \<Rightarrow> NotesRaw) \<Rightarrow> Request \<Rightarrow> NotesRaw \<Rightarrow> Response \<times> NotesRaw" where
  "patch_id_notes updateNote req st =
     (let id' = params_id req;
          oldNote = getNoteById id' st
      in case oldNote of
           None \<Rightarrow> (\<lparr>status = 404, sent = Nicht_gefunden id'\<rparr>, st)
         | Some old \<Rightarrow>
             (let title' = nullish (body_title req) (title old);
                  content' = nullish (body_content req) (content old);
                  user' = nullish (body_user req) (user old)
              in (\<lparr>status = 204, sent = No_body\<rparr>, updateNote id' title' content' user' st)))"

definition delete_id_notes ::
  "(number \<Rightarrow> NotesRaw \<Rightarrow> NotesRaw) \<Rightarrow> Request \<Rightarrow> NotesRaw \<Rightarrow> Response \<times> NotesRaw" where
  "delete_id_notes deleteNoteById req st =
     (let id' = params_id req;
          oldNote = getNoteById id' st
      in case oldNote of
           None \<Rightarrow> (\<lparr>status = 404, sent = Nicht_gefunden id'\<rparr>, st)
         | Some _ \<Rightarrow> (\<lparr>status = 204, sent = No_body\<rparr>, deleteNoteById id' st))"

section \<open>Lookup by id\<close>

lemma strict_eq_iff: "strict_eq a b \<longleftrightarrow> (\<exists>k. a = Num k \<and> b = Num k)"
  by (cases a; cases b) auto

lemma find_append_cases:
  "find P (xs @ ys) = (case find P xs of None \<Rightarrow> find P ys | Some x \<Rightarrow> Some x)"
  by (induction xs) auto

lemma find_filter_weaker:
  "(\<And>x. P x \<Longrightarrow> Q x) \<Longrightarrow> find P (filter Q xs) = find P xs"
  by (induction xs) auto

lemma find_filter_excluded:
  "(\<And>x. P x \<Longrightarrow> \<not> Q x) \<Longrightarrow> find P (filter Q xs) = None"
  by (induction xs) auto

lemma getNoteById_None_iff:
  "getNoteById i st = None \<longleftrightarrow> (\<forall>n \<in> set (notes_list st). \<not> strict_eq (id_note n) i)"
  by (auto simp: getNoteById_def getNotes_def find_None_iff)

lemma getNoteById_present:
  assumes "n \<in> set (notes_list st)" and "strict_eq (id_note n) i"
  obtains old where "getNoteById i st = Some old" and "old \<in> set (notes_list st)"
    and "strict_eq (id_note old) i"
proof -
  from assms have "getNoteById i st \<noteq> None"
    by (auto simp: getNoteById_None_iff)
  then obtain old where old: "getNoteById i st = Some old"
    by auto
  then have "old \<in> set (notes_list st)" "strict_eq (id_note old) i"
    by (auto simp: getNoteById_def getNotes_def find_Some_iff)
  with old show thesis
    by (rule that)
qed

section \<open>Creating a note\<close>

text \<open>
  C2. On every store, the route \<open>POST /\<close> answers 204 and leaves the store with one more
  note at its end: its id is the number of notes the store held plus one, and its title,
  content and user are those of the request body.
\<close>

theorem post_kommentaren_appends:
  "post_kommentaren req st =
     (\<lparr>status = 204, sent = No_body\<rparr>,
      st\<lparr>notes_list := notes_list st @
        [\<lparr>id_note = Num (int (length (notes_list st)) + 1), title = body_title req,
          content = body_content req, user = body_user req\<rparr>]\<rparr>)"
  by (simp add: post_kommentaren_def getNotes_def writeNotesToFile_def new_Note_def Let_def)

section \<open>What each mutating route does to the store\<close>

lemma strict_eq_refl_of_match: "strict_eq a i \<Longrightarrow> strict_eq i i"
  by (auto simp: strict_eq_iff)

lemma strict_eq_same: "strict_eq a i \<Longrightarrow> a = i"
  by (auto simp: strict_eq_iff)

lemma put_id_kommentaren_found:
  "getNoteById (params_id req) st = Some old \<Longrightarrow>
   put_id_kommentaren req st =
     (\<lparr>status = 204, sent = No_body\<rparr>,
      st\<lparr>notes_list :=
        filter (\<lambda>note. \<not> strict_eq (id_note note) (params_id req)) (notes_list st) @
        [\<lparr>id_note = params_id req, title = body_title req,
          content = body_content req, user = body_user req\<rparr>]\<rparr>)"
  by (simp add: put_id_kommentaren_def getNotes_def writeNotesToFile_def new_Note_def Let_def)

lemma patch_id_kommentaren_found:
  "getNoteById (params_id req) st = Some old \<Longrightarrow>
   patch_id_kommentaren req st =
     (\<lparr>status = 204, sent = No_body\<rparr>,
      st\<lparr>notes_list :=
        filter (\<lambda>note. \<not> strict_eq (id_note note) (params_id req)) (notes_list st) @
        [\<lparr>id_note = params_id req, title = nullish (body_title req) (title old),
          content = nullish (body_content req) (content old),
          user = nullish (body_user req) (user old)\<rparr>]\<rparr>)"
  by (simp add: patch_id_kommentaren_def getNotes_def writeNotesToFile_def new_Note_def Let_def)

lemma delete_id_kommentaren_found:
  "getNoteById (params_id req) st = Some old \<Longrightarrow>
   delete_id_kommentaren req st =
     (\<lparr>status = 204, sent = No_body\<rparr>,
      st\<lparr>notes_list :=
        filter (\<lambda>note. \<not> strict_eq (id_note note) (params_id req)) (notes_list st)\<rparr>)"
  by (simp add: delete_id_kommentaren_def getNotes_def writeNotesToFile_def Let_def)

lemma put_id_kommentaren_missing:
  "getNoteById (params_id req) st = None \<Longrightarrow>
   put_id_kommentaren req st = (\<lparr>status = 404, sent = Nicht_gefunden (params_id req)\<rparr>, st)"
  by (simp add: put_id_kommentaren_def Let_def)

lemma patch_id_kommentaren_missing:
  "getNoteById (params_id req) st = None \<Longrightarrow>
   patch_id_kommentaren req st = (\<lparr>status = 404, sent = Nicht_gefunden (params_id req)\<rparr>, st)"
  by (simp add: patch_id_kommentaren_def Let_def)

lemma delete_id_kommentaren_missing:
  "getNoteById (params_id req) st = None \<Longrightarrow>
   delete_id_kommentaren req st = (\<lparr>status = 404, sent = Nicht_gefunden (params_id req)\<rparr>, st)"
  by (simp add: delete_id_kommentaren_def Let_def)

text \<open>Looking an id up in a store whose notes of one id were replaced by a single note.\<close>

lemma getNoteById_replaced:
  assumes "strict_eq (id_note new) i"
  shows "getNoteById j
      (st\<lparr>notes_list := filter (\<lambda>note. \<not> strict_eq (id_note note) i) (notes_list st) @ [new]\<rparr>) =
    (if strict_eq j i then Some new else getNoteById j st)"
proof (cases "strict_eq j i")
  case True
  then have ji: "j = i" and ii: "strict_eq i i"
    by (auto simp: strict_eq_iff)
  have "find (\<lambda>note. strict_eq (id_note note) i)
          (filter (\<lambda>note. \<not> strict_eq (id_note note) i) (notes_list st)) = None"
    by (rule find_filter_excluded) simp
  with assms True ji show ?thesis
    by (simp add: getNoteById_def getNotes_def find_append_cases)
next
  case False
  have other: "\<And>x. strict_eq (id_note x) j \<Longrightarrow> \<not> strict_eq (id_note x) i"
    using False by (auto simp: strict_eq_iff)
  have "find (\<lambda>note. strict_eq (id_note note) j)
          (filter (\<lambda>note. \<not> strict_eq (id_note note) i) (notes_list st)) =
        find (\<lambda>note. strict_eq (id_note note) j) (notes_list st)"
    by (rule find_filter_weaker) (rule other)
  moreover have "\<not> strict_eq (id_note new) j"
    using assms other by blast
  ultimately show ?thesis
    using False
    by (simp add: getNoteById_def getNotes_def find_append_cases split: option.splits)
qed

section \<open>Updating a note\<close>

text \<open>
  C10. On a store that holds a note of the requested id, the routes \<open>PUT /:id\<close> and
  \<open>PATCH /:id\<close> both leave the store with the notes of every other id in their earlier
  order, followed by the rebuilt note as the last element: every note of the requested id
  is filtered out of the sequence and the rebuilt note is pushed onto its end.
\<close>

theorem update_moves_note_to_end:
  assumes "n \<in> set (notes_list st)" and "strict_eq (id_note n) (params_id req)"
  shows "\<exists>old. getNoteById (params_id req) st = Some old \<and>
    put_id_kommentaren req st =
      (\<lparr>status = 204, sent = No_body\<rparr>,
       st\<lparr>notes_list :=
         filter (\<lambda>note. \<not> strict_eq (id_note note) (params_id req)) (notes_list st) @
         [\<lparr>id_note = params_id req, title = body_title req,
           content = body_content req, user = body_user req\<rparr>]\<rparr>) \<and>
    patch_id_kommentaren req st =
      (\<lparr>status = 204, sent = No_body\<rparr>,
       st\<lparr>notes_list :=
         filter (\<lambda>note. \<not> strict_eq (id_note note) (params_id req)) (notes_list st) @
         [\<lparr>id_note = params_id req, title = nullish (body_title req) (title old),
           content = nullish (body_content req) (content old),
           user = nullish (body_user req) (user old)\<rparr>]\<rparr>)"
proof -
  from assms obtain old where old: "getNoteById (params_id req) st = Some old"
    by (rule getNoteById_present)
  from old show ?thesis
    by (simp add: put_id_kommentaren_found [OF old] patch_id_kommentaren_found [OF old])
qed

theorem update_moves_note_to_end_witness:
  "\<lparr>id_note = Num 1, title = Str ''a'', content = Str ''b'', user = Str ''u1''\<rparr>
     \<in> set (notes_list \<lparr>notes_list =
         [\<lparr>id_note = Num 1, title = Str ''a'', content = Str ''b'', user = Str ''u1''\<rparr>,
          \<lparr>id_note = Num 2, title = Str ''c'', content = Str ''d'', user = Str ''u2''\<rparr>]\<rparr>) \<and>
   snd (put_id_kommentaren
     \<lparr>params_id = Num 1, body_title = Str ''A'', body_content = Undefined,
       body_user = Str ''u3'', authorization = Undefined\<rparr>
     \<lparr>notes_list =
         [\<lparr>id_note = Num 1, title = Str ''a'', content = Str ''b'', user = Str ''u1''\<rparr>,
          \<lparr>id_note = Num 2, title = Str ''c'', content = Str ''d'', user = Str ''u2''\<rparr>]\<rparr>) =
     \<lparr>notes_list =
         [\<lparr>id_note = Num 2, title = Str ''c'', content = Str ''d'', user = Str ''u2''\<rparr>,
          \<lparr>id_note = Num 1, title = Str ''A'', content = Undefined, user = Str ''u3''\<rparr>]\<rparr> \<and>
   snd (patch_id_kommentaren
     \<lparr>params_id = Num 1, body_title = Str ''A'', body_content = Undefined,
       body_user = Str ''u3'', authorization = Undefined\<rparr>
     \<lparr>notes_list =
         [\<lparr>id_note = Num 1, title = Str ''a'', content = Str ''b'', user = Str ''u1''\<rparr>,
          \<lparr>id_note = Num 2, title = Str ''c'', content = Str ''d'', user = Str ''u2''\<rparr>]\<rparr>) =
     \<lparr>notes_list =
         [\<lparr>id_note = Num 2, title = Str ''c'', content = Str ''d'', user = Str ''u2''\<rparr>,
          \<lparr>id_note = Num 1, title = Str ''A'', content = Str ''b'', user = Str ''u3''\<rparr>]\<rparr>"
  using update_moves_note_to_end
    [of "\<lparr>id_note = Num 1, title = Str ''a'', content = Str ''b'', user = Str ''u1''\<rparr>"
        "\<lparr>notes_list =
           [\<lparr>id_note = Num 1, title = Str ''a'', content = Str ''b'', user = Str ''u1''\<rparr>,
            \<lparr>id_note = Num 2, title = Str ''c'', content = Str ''d'', user = Str ''u2''\<rparr>]\<rparr>"
        "\<lparr>params_id = Num 1, body_title = Str ''A'', body_content = Undefined,
          body_user = Str ''u3'', authorization = Undefined\<rparr>"]
  by (simp add: getNoteById_def getNotes_def)

text \<open>
  Whatever the store, \<open>PUT /:id\<close> on a stored id leaves the notes of every other id as they
  were, in their order, and exactly one note of the requested id.
\<close>

lemma put_keeps_notes_of_other_ids:
  assumes "n \<in> set (notes_list st)" and "strict_eq (id_note n) (params_id req)"
  shows "fst (put_id_kommentaren req st) = \<lparr>status = 204, sent = No_body\<rparr> \<and>
    filter (\<lambda>m. \<not> strict_eq (id_note m) (params_id req))
        (notes_list (snd (put_id_kommentaren req st))) =
      filter (\<lambda>m. \<not> strict_eq (id_note m) (params_id req)) (notes_list st) \<and>
    filter (\<lambda>m. strict_eq (id_note m) (params_id req))
        (notes_list (snd (put_id_kommentaren req st))) =
      [\<lparr>id_note = params_id req, title = body_title req,
        content = body_content req, user = body_user req\<rparr>] \<and>
    getNoteById (params_id req) (snd (put_id_kommentaren req st)) =
      Some \<lparr>id_note = params_id req, title = body_title req,
        content = body_content req, user = body_user req\<rparr>"
proof -
  from assms obtain old where old: "getNoteById (params_id req) st = Some old"
    by (rule getNoteById_present)
  from assms(2) have self: "strict_eq (params_id req) (params_id req)"
    by (rule strict_eq_refl_of_match)
  have look: "getNoteById (params_id req) (snd (put_id_kommentaren req st)) =
      Some \<lparr>id_note = params_id req, title = body_title req,
        content = body_content req, user = body_user req\<rparr>"
    using self by (simp add: put_id_kommentaren_found [OF old] getNoteById_replaced)
  from self look show ?thesis
    by (simp add: put_id_kommentaren_found [OF old])
qed

text \<open>
  Among notes of pairwise distinct ids, filtering out the notes of one stored id takes
  out that one note and nothing else.
\<close>

lemma filter_other_ids_remove1:
  assumes "distinct (map id_note xs)" and "n \<in> set xs" and "strict_eq (id_note n) i"
  shows "filter (\<lambda>m. \<not> strict_eq (id_note m) i) xs = remove1 n xs"
  using assms(1,2)
proof (induction xs)
  case Nil
  then show ?case by simp
next
  case (Cons a xs)
  from assms(3) have i: "id_note n = i"
    by (rule strict_eq_same)
  show ?case
  proof (cases "a = n")
    case True
    from Cons.prems(1) have "id_note a \<notin> id_note ` set xs"
      by simp
    with True i have "\<forall>m \<in> set xs. id_note m \<noteq> i"
      by (metis image_eqI)
    then have "\<forall>m \<in> set xs. \<not> strict_eq (id_note m) i"
      using strict_eq_same by blast
    then have "filter (\<lambda>m. \<not> strict_eq (id_note m) i) xs = xs"
      by simp
    with True assms(3) show ?thesis
      by simp
  next
    case False
    with Cons.prems(2) have mem: "n \<in> set xs"
      by simp
    from Cons.prems(1) have "id_note a \<notin> id_note ` set xs"
      by simp
    with mem i have "id_note a \<noteq> i"
      by (metis image_eqI)
    then have keep: "\<not> strict_eq (id_note a) i"
      using strict_eq_same by blast
    from Cons.prems(1) have "distinct (map id_note xs)"
      by simp
    then have "filter (\<lambda>m. \<not> strict_eq (id_note m) i) xs = remove1 n xs"
      using mem by (rule Cons.IH)
    with keep False show ?thesis
      by simp
  qed
qed

text \<open>
  C3. On a store whose notes have pairwise distinct ids and that holds a note of the
  requested id, the route \<open>PUT /:id\<close> answers 204 and leaves the store as it was with that
  one note taken out and, at the end, the same note with its title, content and user set
  to those of the request body and its id kept. Every other note of the store is still
  there, nothing else is new, the number of notes is the same, the ids are still pairwise
  distinct, and a lookup of the id returns the updated note.
\<close>

theorem put_replaces_only_the_target:
  assumes "distinct (map id_note (notes_list st))"
    and "n \<in> set (notes_list st)" and "strict_eq (id_note n) (params_id req)"
  shows "fst (put_id_kommentaren req st) = \<lparr>status = 204, sent = No_body\<rparr> \<and>
    notes_list (snd (put_id_kommentaren req st)) =
      remove1 n (notes_list st) @
      [n\<lparr>title := body_title req, content := body_content req, user := body_user req\<rparr>] \<and>
    (\<forall>m \<in> set (notes_list st). m \<noteq> n \<longrightarrow>
       m \<in> set (notes_list (snd (put_id_kommentaren req st)))) \<and>
    (\<forall>m \<in> set (notes_list (snd (put_id_kommentaren req st))).
       m \<noteq> n\<lparr>title := body_title req, content := body_content req, user := body_user req\<rparr> \<longrightarrow>
       m \<in> set (notes_list st)) \<and>
    length (notes_list (snd (put_id_kommentaren req st))) = length (notes_list st) \<and>
    distinct (map id_note (notes_list (snd (put_id_kommentaren req st)))) \<and>
    getNoteById (params_id req) (snd (put_id_kommentaren req st)) =
      Some (n\<lparr>title := body_title req, content := body_content req, user := body_user req\<rparr>)"
proof -
  let ?i = "params_id req"
  let ?new = "n\<lparr>title := body_title req, content := body_content req, user := body_user req\<rparr>"
  let ?st' = "snd (put_id_kommentaren req st)"
  from assms(2,3) obtain old where old: "getNoteById ?i st = Some old"
    by (rule getNoteById_present)
  from assms(3) have i: "id_note n = ?i"
    by (rule strict_eq_same)
  then have new: "\<lparr>id_note = ?i, title = body_title req,
      content = body_content req, user = body_user req\<rparr> = ?new"
    by (cases n) simp
  have others: "filter (\<lambda>m. \<not> strict_eq (id_note m) ?i) (notes_list st) =
      remove1 n (notes_list st)"
    using assms by (rule filter_other_ids_remove1)
  have store: "notes_list ?st' = remove1 n (notes_list st) @ [?new]"
    by (simp add: put_id_kommentaren_found [OF old] others new)
  have answer: "fst (put_id_kommentaren req st) = \<lparr>status = 204, sent = No_body\<rparr>"
    by (simp add: put_id_kommentaren_found [OF old])
  have kept: "\<forall>m \<in> set (notes_list st). m \<noteq> n \<longrightarrow> m \<in> set (notes_list ?st')"
    by (simp add: store)
  have nothing_new: "\<forall>m \<in> set (notes_list ?st'). m \<noteq> ?new \<longrightarrow> m \<in> set (notes_list st)"
    using set_remove1_subset [of n "notes_list st"] by (auto simp: store)
  have "length (remove1 n (notes_list st)) = length (notes_list st) - 1"
    using assms(2) by (simp add: length_remove1)
  moreover have "0 < length (notes_list st)"
    using assms(2) by (rule length_pos_if_in_set)
  ultimately have len: "length (notes_list ?st') = length (notes_list st)"
    by (simp add: store)
  have self: "strict_eq ?i ?i"
    using assms(3) by (rule strict_eq_refl_of_match)
  have fresh: "\<forall>m \<in> set (remove1 n (notes_list st)). id_note m \<noteq> ?i"
  proof
    fix m
    assume "m \<in> set (remove1 n (notes_list st))"
    then have "m \<in> set (filter (\<lambda>m. \<not> strict_eq (id_note m) ?i) (notes_list st))"
      by (simp only: others)
    then have "\<not> strict_eq (id_note m) ?i"
      by simp
    with self show "id_note m \<noteq> ?i"
      by auto
  qed
  have "distinct (map id_note (filter (\<lambda>m. \<not> strict_eq (id_note m) ?i) (notes_list st)))"
    using assms(1) by (rule distinct_map_filter)
  then have "distinct (map id_note (remove1 n (notes_list st)))"
    by (simp only: others)
  with fresh have dist: "distinct (map id_note (notes_list ?st'))"
    using i by (auto simp: store)
  have look: "getNoteById ?i ?st' = Some ?new"
    using put_keeps_notes_of_other_ids [OF assms(2,3)] new by simp
  from answer store kept nothing_new len dist look show ?thesis
    by (intro conjI)
qed

theorem put_replaces_only_the_target_witness:
  "distinct (map id_note (notes_list \<lparr>notes_list =
         [\<lparr>id_note = Num 1, title = Str ''a'', content = Str ''b'', user = Str ''u1''\<rparr>,
          \<lparr>id_note = Num 2, title = Str ''c'', content = Str ''d'', user = Str ''u2''\<rparr>,
          \<lparr>id_note = Num 3, title = Str ''e'', content = Str ''f'', user = Str ''u1''\<rparr>]\<rparr>)) \<and>
   \<lparr>id_note = Num 2, title = Str ''c'', content = Str ''d'', user = Str ''u2''\<rparr>
     \<in> set (notes_list \<lparr>notes_list =
         [\<lparr>id_note = Num 1, title = Str ''a'', content = Str ''b'', user = Str ''u1''\<rparr>,
          \<lparr>id_note = Num 2, title = Str ''c'', content = Str ''d'', user = Str ''u2''\<rparr>,
          \<lparr>id_note = Num 3, title = Str ''e'', content = Str ''f'', user = Str ''u1''\<rparr>]\<rparr>) \<and>
   notes_list (snd (put_id_kommentaren
     \<lparr>params_id = Num 2, body_title = Str ''C'', body_content = Str ''D'',
       body_user = Str ''u2'', authorization = Undefined\<rparr>
     \<lparr>notes_list =
         [\<lparr>id_note = Num 1, title = Str ''a'', content = Str ''b'', user = Str ''u1''\<rparr>,
          \<lparr>id_note = Num 2, title = Str ''c'', content = Str ''d'', user = Str ''u2''\<rparr>,
          \<lparr>id_note = Num 3, title = Str ''e'', content = Str ''f'', user = Str ''u1''\<rparr>]\<rparr>)) =
     [\<lparr>id_note = Num 1, title = Str ''a'', content = Str ''b'', user = Str ''u1''\<rparr>,
      \<lparr>id_note = Num 3, title = Str ''e'', content = Str ''f'', user = Str ''u1''\<rparr>,
      \<lparr>id_note = Num 2, title = Str ''C'', content = Str ''D'', user = Str ''u2''\<rparr>]"
proof -
  let ?n = "\<lparr>id_note = Num 2, title = Str ''c'', content = Str ''d'', user = Str ''u2''\<rparr>"
  let ?st = "\<lparr>notes_list =
         [\<lparr>id_note = Num 1, title = Str ''a'', content = Str ''b'', user = Str ''u1''\<rparr>,
          \<lparr>id_note = Num 2, title = Str ''c'', content = Str ''d'', user = Str ''u2''\<rparr>,
          \<lparr>id_note = Num 3, title = Str ''e'', content = Str ''f'', user = Str ''u1''\<rparr>]\<rparr>"
  let ?req = "\<lparr>params_id = Num 2, body_title = Str ''C'', body_content = Str ''D'',
       body_user = Str ''u2'', authorization = Undefined\<rparr>"
  have dist: "distinct (map id_note (notes_list ?st))" by simp
  have mem: "?n \<in> set (notes_list ?st)" by simp
  have eq: "strict_eq (id_note ?n) (params_id ?req)" by simp
  from put_replaces_only_the_target [OF dist mem eq]
  have "notes_list (snd (put_id_kommentaren ?req ?st)) =
      remove1 ?n (notes_list ?st) @
      [?n\<lparr>title := body_title ?req, content := body_content ?req, user := body_user ?req\<rparr>]"
    by (elim conjE)
  then have "notes_list (snd (put_id_kommentaren ?req ?st)) =
     [\<lparr>id_note = Num 1, title = Str ''a'', content = Str ''b'', user = Str ''u1''\<rparr>,
      \<lparr>id_note = Num 3, title = Str ''e'', content = Str ''f'', user = Str ''u1''\<rparr>,
      \<lparr>id_note = Num 2, title = Str ''C'', content = Str ''D'', user = Str ''u2''\<rparr>]"
    by simp
  with dist mem show ?thesis
    by (intro conjI)
qed

text \<open>
  Without distinct ids the statement fails. The store that two creations, the deletion of
  note 1 and a third creation leave behind holds two notes of id 2; \<open>PUT /2\<close> answers 204
  and leaves a single note, so that neither of the two stored notes is in the store any
  more, whichever of them counts as the updated one.
\<close>

theorem put_drops_notes_sharing_the_id:
  "snd (serve
     [POST \<lparr>params_id = NaN, body_title = Str ''A'', body_content = Str ''B'',
        body_user = Str ''u1'', authorization = Undefined\<rparr>,
      POST \<lparr>params_id = NaN, body_title = Str ''C'', body_content = Str ''D'',
        body_user = Str ''u1'', authorization = Undefined\<rparr>,
      DELETE_id \<lparr>params_id = Num 1, body_title = Undefined, body_content = Undefined,
        body_user = Undefined, authorization = Undefined\<rparr>,
      POST \<lparr>params_id = NaN, body_title = Str ''E'', body_content = Str ''F'',
        body_user = Str ''u1'', authorization = Undefined\<rparr>]
     \<lparr>notes_list = []\<rparr>) =
   \<lparr>notes_list =
     [\<lparr>id_note = Num 2, title = Str ''C'', content = Str ''D'', user = Str ''u1''\<rparr>,
      \<lparr>id_note = Num 2, title = Str ''E'', content = Str ''F'', user = Str ''u1''\<rparr>]\<rparr> \<and>
   put_id_kommentaren
     \<lparr>params_id = Num 2, body_title = Str ''X'', body_content = Str ''Y'',
       body_user = Str ''u1'', authorization = Undefined\<rparr>
     \<lparr>notes_list =
       [\<lparr>id_note = Num 2, title = Str ''C'', content = Str ''D'', user = Str ''u1''\<rparr>,
        \<lparr>id_note = Num 2, title = Str ''E'', content = Str ''F'', user = Str ''u1''\<rparr>]\<rparr> =
     (\<lparr>status = 204, sent = No_body\<rparr>,
      \<lparr>notes_list =
        [\<lparr>id_note = Num 2, title = Str ''X'', content = Str ''Y'', user = Str ''u1''\<rparr>]\<rparr>) \<and>
   \<lparr>id_note = Num 2, title = Str ''C'', content = Str ''D'', user = Str ''u1''\<rparr> \<notin>
     set (notes_list (snd (put_id_kommentaren
       \<lparr>params_id = Num 2, body_title = Str ''X'', body_content = Str ''Y'',
         body_user = Str ''u1'', authorization = Undefined\<rparr>
       \<lparr>notes_list =
         [\<lparr>id_note = Num 2, title = Str ''C'', content = Str ''D'', user = Str ''u1''\<rparr>,
          \<lparr>id_note = Num 2, title = Str ''E'', content = Str ''F'', user = Str ''u1''\<rparr>]\<rparr>))) \<and>
   \<lparr>id_note = Num 2, title = Str ''E'', content = Str ''F'', user = Str ''u1''\<rparr> \<notin>
     set (notes_list (snd (put_id_kommentaren
       \<lparr>params_id = Num 2, body_title = Str ''X'', body_content = Str ''Y'',
         body_user = Str ''u1'', authorization = Undefined\<rparr>
       \<lparr>notes_list =
         [\<lparr>id_note = Num 2, title = Str ''C'', content = Str ''D'', user = Str ''u1''\<rparr>,
          \<lparr>id_note = Num 2, title = Str ''E'', content = Str ''F'', user = Str ''u1''\<rparr>]\<rparr>)))"
  by (simp add: post_kommentaren_def delete_id_kommentaren_def put_id_kommentaren_def
      getNoteById_def getNotes_def writeNotesToFile_def new_Note_def Let_def)

section \<open>Updating a note in part\<close>

text \<open>
  C4. On a store that holds a note of the requested id, the route \<open>PATCH /:id\<close> with none
  of title, content and user in its body answers 204, and afterwards a lookup of any id
  returns the note it returned before, so with the same title, content and user.
\<close>

theorem patch_without_fields_keeps_lookups:
  assumes "n \<in> set (notes_list st)" and "strict_eq (id_note n) (params_id req)"
    and "body_title req = Undefined" and "body_content req = Undefined"
    and "body_user req = Undefined"
  shows "fst (patch_id_kommentaren req st) = \<lparr>status = 204, sent = No_body\<rparr> \<and>
    (\<forall>j. getNoteById j (snd (patch_id_kommentaren req st)) = getNoteById j st)"
proof -
  from assms(1,2) obtain old where old: "getNoteById (params_id req) st = Some old"
    and match: "strict_eq (id_note old) (params_id req)"
    by (rule getNoteById_present)
  from match have same: "id_note old = params_id req"
    by (rule strict_eq_same)
  have rebuilt: "\<lparr>id_note = params_id req, title = nullish (body_title req) (title old),
      content = nullish (body_content req) (content old),
      user = nullish (body_user req) (user old)\<rparr> = old"
    using assms(3-5) same by simp
  have "getNoteById j (snd (patch_id_kommentaren req st)) = getNoteById j st" for j
  proof (cases "strict_eq j (params_id req)")
    case True
    then have "j = params_id req"
      by (rule strict_eq_same)
    with True old match show ?thesis
      by (simp add: patch_id_kommentaren_found [OF old] rebuilt getNoteById_replaced)
  next
    case False
    with match show ?thesis
      by (simp add: patch_id_kommentaren_found [OF old] rebuilt getNoteById_replaced)
  qed
  then show ?thesis
    by (simp add: patch_id_kommentaren_found [OF old])
qed

theorem patch_without_fields_keeps_lookups_witness:
  "\<lparr>id_note = Num 1, title = Str ''a'', content = Str ''b'', user = Str ''u1''\<rparr>
     \<in> set (notes_list \<lparr>notes_list =
         [\<lparr>id_note = Num 1, title = Str ''a'', content = Str ''b'', user = Str ''u1''\<rparr>,
          \<lparr>id_note = Num 2, title = Str ''c'', content = Str ''d'', user = Str ''u2''\<rparr>]\<rparr>) \<and>
   getNoteById (Num 1) (snd (patch_id_kommentaren
     \<lparr>params_id = Num 1, body_title = Undefined, body_content = Undefined,
       body_user = Undefined, authorization = Undefined\<rparr>
     \<lparr>notes_list =
         [\<lparr>id_note = Num 1, title = Str ''a'', content = Str ''b'', user = Str ''u1''\<rparr>,
          \<lparr>id_note = Num 2, title = Str ''c'', content = Str ''d'', user = Str ''u2''\<rparr>]\<rparr>)) =
     Some \<lparr>id_note = Num 1, title = Str ''a'', content = Str ''b'', user = Str ''u1''\<rparr>"
  using patch_without_fields_keeps_lookups
    [of "\<lparr>id_note = Num 1, title = Str ''a'', content = Str ''b'', user = Str ''u1''\<rparr>"
        "\<lparr>notes_list =
           [\<lparr>id_note = Num 1, title = Str ''a'', content = Str ''b'', user = Str ''u1''\<rparr>,
            \<lparr>id_note = Num 2, title = Str ''c'', content = Str ''d'', user = Str ''u2''\<rparr>]\<rparr>"
        "\<lparr>params_id = Num 1, body_title = Undefined, body_content = Undefined,
          body_user = Undefined, authorization = Undefined\<rparr>"]
  by (simp add: getNoteById_def getNotes_def)

text \<open>
  C9. On a store that holds a note of the requested id, the route \<open>PATCH /:id\<close> answers 204,
  and the note that a lookup of the id returns afterwards carries that id; each of its
  title, content and user is the string of the request body where the body supplies one,
  and the value the looked-up note had before where the body omits the field.
\<close>

theorem patch_sets_supplied_keeps_omitted:
  assumes "n \<in> set (notes_list st)" and "strict_eq (id_note n) (params_id req)"
  shows "\<exists>old new. getNoteById (params_id req) st = Some old \<and>
    fst (patch_id_kommentaren req st) = \<lparr>status = 204, sent = No_body\<rparr> \<and>
    getNoteById (params_id req) (snd (patch_id_kommentaren req st)) = Some new \<and>
    id_note new = params_id req \<and>
    (\<forall>v. body_title req = Str v \<longrightarrow> title new = Str v) \<and>
    (body_title req = Undefined \<longrightarrow> title new = title old) \<and>
    (\<forall>v. body_content req = Str v \<longrightarrow> content new = Str v) \<and>
    (body_content req = Undefined \<longrightarrow> content new = content old) \<and>
    (\<forall>v. body_user req = Str v \<longrightarrow> user new = Str v) \<and>
    (body_user req = Undefined \<longrightarrow> user new = user old)"
proof -
  from assms obtain old where old: "getNoteById (params_id req) st = Some old"
    by (rule getNoteById_present)
  from assms(2) have self: "strict_eq (params_id req) (params_id req)"
    by (rule strict_eq_refl_of_match)
  let ?new = "\<lparr>id_note = params_id req, title = nullish (body_title req) (title old),
      content = nullish (body_content req) (content old),
      user = nullish (body_user req) (user old)\<rparr>"
  have "getNoteById (params_id req) (snd (patch_id_kommentaren req st)) = Some ?new"
    using self by (simp add: patch_id_kommentaren_found [OF old] getNoteById_replaced)
  moreover have "fst (patch_id_kommentaren req st) = \<lparr>status = 204, sent = No_body\<rparr>"
    by (simp add: patch_id_kommentaren_found [OF old])
  moreover have "(\<forall>v. body_title req = Str v \<longrightarrow> title ?new = Str v) \<and>
      (body_title req = Undefined \<longrightarrow> title ?new = title old)"
    by simp
  moreover have "(\<forall>v. body_content req = Str v \<longrightarrow> content ?new = Str v) \<and>
      (body_content req = Undefined \<longrightarrow> content ?new = content old)"
    by simp
  moreover have "(\<forall>v. body_user req = Str v \<longrightarrow> user ?new = Str v) \<and>
      (body_user req = Undefined \<longrightarrow> user ?new = user old)"
    by simp
  moreover have "id_note ?new = params_id req"
    by simp
  ultimately show ?thesis
    using old by blast
qed

theorem patch_sets_supplied_keeps_omitted_witness:
  "\<lparr>id_note = Num 1, title = Str ''A'', content = Str ''B'', user = Str ''u1''\<rparr>
     \<in> set (notes_list \<lparr>notes_list =
         [\<lparr>id_note = Num 1, title = Str ''A'', content = Str ''B'', user = Str ''u1''\<rparr>]\<rparr>) \<and>
   getNoteById (Num 1) (snd (patch_id_kommentaren
     \<lparr>params_id = Num 1, body_title = Undefined, body_content = Str ''C2'',
       body_user = Undefined, authorization = Str ''u1''\<rparr>
     \<lparr>notes_list =
         [\<lparr>id_note = Num 1, title = Str ''A'', content = Str ''B'', user = Str ''u1''\<rparr>]\<rparr>)) =
     Some \<lparr>id_note = Num 1, title = Str ''A'', content = Str ''C2'', user = Str ''u1''\<rparr>"
proof -
  let ?n = "\<lparr>id_note = Num 1, title = Str ''A'', content = Str ''B'', user = Str ''u1''\<rparr>"
  let ?st = "\<lparr>notes_list = [?n]\<rparr>"
  let ?req = "\<lparr>params_id = Num 1, body_title = Undefined, body_content = Str ''C2'',
       body_user = Undefined, authorization = Str ''u1''\<rparr>"
  have mem: "?n \<in> set (notes_list ?st)" by simp
  have eq: "strict_eq (id_note ?n) (params_id ?req)" by simp
  have old: "getNoteById (Num 1) ?st = Some ?n"
    by (simp add: getNoteById_def getNotes_def)
  from patch_sets_supplied_keeps_omitted [OF mem eq]
  obtain new where new: "getNoteById (Num 1) (snd (patch_id_kommentaren ?req ?st)) = Some new"
    and "id_note new = Num 1" and "title new = Str ''A''"
    and "content new = Str ''C2''" and "user new = Str ''u1''"
    by (auto simp: old)
  then have "new = \<lparr>id_note = Num 1, title = Str ''A'', content = Str ''C2'', user = Str ''u1''\<rparr>"
    by simp
  with new mem show ?thesis
    by simp
qed

section \<open>Deleting a note\<close>

lemma delete_answer_204:
  assumes "fst (delete_id_kommentaren req st) = \<lparr>status = 204, sent = No_body\<rparr>"
  obtains old where "getNoteById (params_id req) st = Some old"
proof (cases "getNoteById (params_id req) st")
  case None
  with assms show thesis
    by (simp add: delete_id_kommentaren_missing)
next
  case (Some old)
  then show thesis
    by (rule that)
qed

lemma getNoteById_after_filter:
  "getNoteById i
     (st\<lparr>notes_list := filter (\<lambda>note. \<not> strict_eq (id_note note) i) (notes_list st)\<rparr>) = None"
  by (simp add: getNoteById_def getNotes_def find_filter_excluded)

text \<open>
  C5. Whenever the route \<open>DELETE /:id\<close> answers 204, the store it leaves behind has no note
  of that id: a lookup of the id returns nothing, the route \<open>GET /:id\<close> answers 404, and
  no note of the list of all notes has the id. The same request served once more answers
  404 and changes nothing, so two deletes in a row answer 204 and then 404.
\<close>

theorem delete_then_absent:
  assumes "fst (delete_id_kommentaren req st) = \<lparr>status = 204, sent = No_body\<rparr>"
  shows "getNoteById (params_id req) (snd (delete_id_kommentaren req st)) = None \<and>
    get_id_kommentaren req (snd (delete_id_kommentaren req st)) =
      (\<lparr>status = 404, sent = Not_found (params_id req)\<rparr>, snd (delete_id_kommentaren req st)) \<and>
    (\<forall>m \<in> set (getNotes (snd (delete_id_kommentaren req st))).
       \<not> strict_eq (id_note m) (params_id req)) \<and>
    delete_id_kommentaren req (snd (delete_id_kommentaren req st)) =
      (\<lparr>status = 404, sent = Nicht_gefunden (params_id req)\<rparr>,
       snd (delete_id_kommentaren req st)) \<and>
    map status (fst (serve [DELETE_id req, DELETE_id req] st)) = [204, 404]"
proof -
  from assms obtain old where old: "getNoteById (params_id req) st = Some old"
    by (rule delete_answer_204)
  define st' where
    "st' = st\<lparr>notes_list :=
       filter (\<lambda>note. \<not> strict_eq (id_note note) (params_id req)) (notes_list st)\<rparr>"
  have first: "delete_id_kommentaren req st = (\<lparr>status = 204, sent = No_body\<rparr>, st')"
    unfolding st'_def by (rule delete_id_kommentaren_found [OF old])
  have gone: "getNoteById (params_id req) st' = None"
    unfolding st'_def by (rule getNoteById_after_filter)
  then have none: "\<forall>m \<in> set (getNotes st'). \<not> strict_eq (id_note m) (params_id req)"
    by (simp add: getNoteById_None_iff getNotes_def)
  have get: "get_id_kommentaren req st' =
      (\<lparr>status = 404, sent = Not_found (params_id req)\<rparr>, st')"
    using gone by (simp add: get_id_kommentaren_def getNoteById_def Let_def)
  have again: "delete_id_kommentaren req st' =
      (\<lparr>status = 404, sent = Nicht_gefunden (params_id req)\<rparr>, st')"
    using gone by (rule delete_id_kommentaren_missing)
  have "map status (fst (serve [DELETE_id req, DELETE_id req] st)) = [204, 404]"
    by (simp add: first again)
  with gone get none again show ?thesis
    by (simp add: first)
qed

theorem delete_then_absent_witness:
  "fst (delete_id_kommentaren
     \<lparr>params_id = Num 1, body_title = Undefined, body_content = Undefined,
       body_user = Undefined, authorization = Undefined\<rparr>
     \<lparr>notes_list =
         [\<lparr>id_note = Num 1, title = Str ''a'', content = Str ''b'', user = Str ''u1''\<rparr>,
          \<lparr>id_note = Num 2, title = Str ''c'', content = Str ''d'', user = Str ''u2''\<rparr>]\<rparr>) =
     \<lparr>status = 204, sent = No_body\<rparr> \<and>
   map status (fst (serve
     [DELETE_id \<lparr>params_id = Num 1, body_title = Undefined, body_content = Undefined,
        body_user = Undefined, authorization = Undefined\<rparr>,
      DELETE_id \<lparr>params_id = Num 1, body_title = Undefined, body_content = Undefined,
        body_user = Undefined, authorization = Undefined\<rparr>]
     \<lparr>notes_list =
         [\<lparr>id_note = Num 1, title = Str ''a'', content = Str ''b'', user = Str ''u1''\<rparr>,
          \<lparr>id_note = Num 2, title = Str ''c'', content = Str ''d'', user = Str ''u2''\<rparr>]\<rparr>)) =
     [204, 404]"
proof -
  let ?req = "\<lparr>params_id = Num 1, body_title = Undefined, body_content = Undefined,
       body_user = Undefined, authorization = Undefined\<rparr>"
  let ?st = "\<lparr>notes_list =
         [\<lparr>id_note = Num 1, title = Str ''a'', content = Str ''b'', user = Str ''u1''\<rparr>,
          \<lparr>id_note = Num 2, title = Str ''c'', content = Str ''d'', user = Str ''u2''\<rparr>]\<rparr>"
  have ok: "fst (delete_id_kommentaren ?req ?st) = \<lparr>status = 204, sent = No_body\<rparr>"
    by (simp add: delete_id_kommentaren_def getNoteById_def getNotes_def Let_def)
  from delete_then_absent [OF ok]
  have twice: "map status (fst (serve [DELETE_id ?req, DELETE_id ?req] ?st)) = [204, 404]"
    by (elim conjE)
  from ok twice show ?thesis
    by (rule conjI)
qed

section \<open>Listing and reading notes\<close>

text \<open>
  C6. On every store and for every credential string \<open>U\<close> in the authorization header, the
  route \<open>GET /\<close> of routes/notes.ts answers 200 with the stored notes whose user is \<open>U\<close>, in
  store order: a note is in the answer exactly when it is stored and its user is \<open>U\<close>. On a
  second store that holds the same notes in another order the answer holds the same notes.
\<close>

theorem get_notes_of_user:
  assumes "authorization req = Str U"
    and "mset (notes_list st2) = mset (notes_list st)"
  shows "\<exists>ns ns2.
    get_notes req st = (\<lparr>status = 200, sent = Notes_body ns\<rparr>, st) \<and>
    get_notes req st2 = (\<lparr>status = 200, sent = Notes_body ns2\<rparr>, st2) \<and>
    ns = filter (\<lambda>note. user note = Str U) (notes_list st) \<and>
    (\<forall>m. m \<in> set ns \<longleftrightarrow> m \<in> set (notes_list st) \<and> user m = Str U) \<and>
    mset ns = filter_mset (\<lambda>note. user note = Str U) (mset (notes_list st)) \<and>
    mset ns2 = mset ns"
proof -
  have "mset (filter (\<lambda>note. user note = Str U) (notes_list st2)) =
      mset (filter (\<lambda>note. user note = Str U) (notes_list st))"
    using assms(2) by simp
  with assms(1) show ?thesis
    by (simp add: get_notes_def getNotes_def Let_def)
qed

theorem get_notes_of_user_witness:
  "mset (notes_list \<lparr>notes_list =
      [\<lparr>id_note = Num 2, title = Str ''c'', content = Str ''d'', user = Str ''u2''\<rparr>,
       \<lparr>id_note = Num 3, title = Str ''e'', content = Str ''f'', user = Str ''u1''\<rparr>,
       \<lparr>id_note = Num 1, title = Str ''a'', content = Str ''b'', user = Str ''u1''\<rparr>]\<rparr>) =
   mset (notes_list \<lparr>notes_list =
      [\<lparr>id_note = Num 1, title = Str ''a'', content = Str ''b'', user = Str ''u1''\<rparr>,
       \<lparr>id_note = Num 2, title = Str ''c'', content = Str ''d'', user = Str ''u2''\<rparr>,
       \<lparr>id_note = Num 3, title = Str ''e'', content = Str ''f'', user = Str ''u1''\<rparr>]\<rparr>) \<and>
   fst (get_notes
     \<lparr>params_id = NaN, body_title = Undefined, body_content = Undefined,
       body_user = Undefined, authorization = Str ''u1''\<rparr>
     \<lparr>notes_list =
      [\<lparr>id_note = Num 1, title = Str ''a'', content = Str ''b'', user = Str ''u1''\<rparr>,
       \<lparr>id_note = Num 2, title = Str ''c'', content = Str ''d'', user = Str ''u2''\<rparr>,
       \<lparr>id_note = Num 3, title = Str ''e'', content = Str ''f'', user = Str ''u1''\<rparr>]\<rparr>) =
     \<lparr>status = 200, sent = Notes_body
      [\<lparr>id_note = Num 1, title = Str ''a'', content = Str ''b'', user = Str ''u1''\<rparr>,
       \<lparr>id_note = Num 3, title = Str ''e'', content = Str ''f'', user = Str ''u1''\<rparr>]\<rparr>"
proof -
  let ?a = "\<lparr>id_note = Num 1, title = Str ''a'', content = Str ''b'', user = Str ''u1''\<rparr>"
  let ?b = "\<lparr>id_note = Num 2, title = Str ''c'', content = Str ''d'', user = Str ''u2''\<rparr>"
  let ?c = "\<lparr>id_note = Num 3, title = Str ''e'', content = Str ''f'', user = Str ''u1''\<rparr>"
  let ?req = "\<lparr>params_id = NaN, body_title = Undefined, body_content = Undefined,
       body_user = Undefined, authorization = Str ''u1''\<rparr>"
  have cred: "authorization ?req = Str ''u1''" by simp
  have same: "mset (notes_list \<lparr>notes_list = [?b, ?c, ?a]\<rparr>) =
      mset (notes_list \<lparr>notes_list = [?a, ?b, ?c]\<rparr>)"
    by simp
  from get_notes_of_user [OF cred same]
  obtain ns where
    answer: "get_notes ?req \<lparr>notes_list = [?a, ?b, ?c]\<rparr> =
      (\<lparr>status = 200, sent = Notes_body ns\<rparr>, \<lparr>notes_list = [?a, ?b, ?c]\<rparr>)"
    and ns: "ns = filter (\<lambda>note. user note = Str ''u1'') (notes_list \<lparr>notes_list = [?a, ?b, ?c]\<rparr>)"
    by (elim exE conjE) (rule that)
  from same answer ns show ?thesis
    by simp
qed

text \<open>The route \<open>GET /\<close> of routes/notes\_mit\_kommentaren.ts reads no credential.\<close>

lemma get_kommentaren_all:
  "get_kommentaren req st = (\<lparr>status = 200, sent = Notes_body (notes_list st)\<rparr>, st)"
  by (simp add: get_kommentaren_def getNotes_def)

text \<open>
  C7. On every store and for every requested id that no stored note has, \<open>NaN\<close> included,
  the lookup returns nothing as an ordinary value, and the route \<open>GET /:id\<close> of either
  file answers 404 with the store as it was.
\<close>

theorem lookup_of_missing_id_is_absent:
  assumes "\<forall>m \<in> set (notes_list st). \<not> strict_eq (id_note m) (params_id req)"
  shows "find (\<lambda>note. strict_eq (id_note note) (params_id req)) (getNotes st) = None \<and>
    get_id_kommentaren req st = (\<lparr>status = 404, sent = Not_found (params_id req)\<rparr>, st) \<and>
    getNoteById (params_id req) st = None \<and>
    get_id_notes req st = (\<lparr>status = 404, sent = Nicht_gefunden (params_id req)\<rparr>, st)"
proof -
  from assms have none: "getNoteById (params_id req) st = None"
    by (simp add: getNoteById_None_iff)
  then have "find (\<lambda>note. strict_eq (id_note note) (params_id req)) (getNotes st) = None"
    by (simp add: getNoteById_def)
  with none show ?thesis
    by (simp add: get_id_kommentaren_def get_id_notes_def Let_def)
qed

theorem lookup_of_missing_id_is_absent_witness:
  "list_all (\<lambda>m. \<not> strict_eq (id_note m) (Num 999))
     (notes_list \<lparr>notes_list =
        [\<lparr>id_note = Num 1, title = Str ''a'', content = Str ''b'', user = Str ''u1''\<rparr>]\<rparr>) \<and>
   get_id_kommentaren
     \<lparr>params_id = Num 999, body_title = Undefined, body_content = Undefined,
       body_user = Undefined, authorization = Undefined\<rparr>
     \<lparr>notes_list =
        [\<lparr>id_note = Num 1, title = Str ''a'', content = Str ''b'', user = Str ''u1''\<rparr>]\<rparr> =
     (\<lparr>status = 404, sent = Not_found (Num 999)\<rparr>,
      \<lparr>notes_list =
        [\<lparr>id_note = Num 1, title = Str ''a'', content = Str ''b'', user = Str ''u1''\<rparr>]\<rparr>)"
  using lookup_of_missing_id_is_absent
    [of "\<lparr>notes_list =
          [\<lparr>id_note = Num 1, title = Str ''a'', content = Str ''b'', user = Str ''u1''\<rparr>]\<rparr>"
        "\<lparr>params_id = Num 999, body_title = Undefined, body_content = Undefined,
          body_user = Undefined, authorization = Undefined\<rparr>"]
  by simp

section \<open>Requests for an id the store does not hold\<close>

text \<open>
  C8. On every store with no note of the requested id, \<open>NaN\<close> included, the routes
  \<open>PUT /:id\<close>, \<open>PATCH /:id\<close> and \<open>DELETE /:id\<close> of both files answer 404 and return the
  store exactly as it was. In routes/notes.ts this holds whatever \<open>updateNote\<close> and
  \<open>deleteNoteById\<close> do, since the callback returns before calling them.
\<close>

theorem missing_id_answers_404_untouched:
  assumes "\<forall>m \<in> set (notes_list st). \<not> strict_eq (id_note m) (params_id req)"
  shows "put_id_kommentaren req st =
      (\<lparr>status = 404, sent = Nicht_gefunden (params_id req)\<rparr>, st) \<and>
    patch_id_kommentaren req st =
      (\<lparr>status = 404, sent = Nicht_gefunden (params_id req)\<rparr>, st) \<and>
    delete_id_kommentaren req st =
      (\<lparr>status = 404, sent = Nicht_gefunden (params_id req)\<rparr>, st) \<and>
    put_id_notes updateNote req st =
      (\<lparr>status = 404, sent = Nicht_gefunden (params_id req)\<rparr>, st) \<and>
    patch_id_notes updateNote req st =
      (\<lparr>status = 404, sent = Nicht_gefunden (params_id req)\<rparr>, st) \<and>
    delete_id_notes deleteNoteById req st =
      (\<lparr>status = 404, sent = Nicht_gefunden (params_id req)\<rparr>, st)"
proof -
  from assms have none: "getNoteById (params_id req) st = None"
    by (simp add: getNoteById_None_iff)
  have "put_id_notes updateNote req st =
      (\<lparr>status = 404, sent = Nicht_gefunden (params_id req)\<rparr>, st)"
    using none by (simp add: put_id_notes_def Let_def)
  moreover have "patch_id_notes updateNote req st =
      (\<lparr>status = 404, sent = Nicht_gefunden (params_id req)\<rparr>, st)"
    using none by (simp add: patch_id_notes_def Let_def)
  moreover have "delete_id_notes deleteNoteById req st =
      (\<lparr>status = 404, sent = Nicht_gefunden (params_id req)\<rparr>, st)"
    using none by (simp add: delete_id_notes_def Let_def)
  ultimately show ?thesis
    using none
    by (simp add: put_id_kommentaren_missing patch_id_kommentaren_missing
        delete_id_kommentaren_missing)
qed

theorem missing_id_answers_404_untouched_witness:
  "list_all (\<lambda>m. \<not> strict_eq (id_note m) (Num 1))
     (notes_list \<lparr>notes_list =
        [\<lparr>id_note = Num 2, title = Str ''c'', content = Str ''d'', user = Str ''u2''\<rparr>]\<rparr>) \<and>
   delete_id_kommentaren
     \<lparr>params_id = Num 1, body_title = Str ''A'', body_content = Undefined,
       body_user = Undefined, authorization = Str ''u2''\<rparr>
     \<lparr>notes_list =
        [\<lparr>id_note = Num 2, title = Str ''c'', content = Str ''d'', user = Str ''u2''\<rparr>]\<rparr> =
     (\<lparr>status = 404, sent = Nicht_gefunden (Num 1)\<rparr>,
      \<lparr>notes_list =
        [\<lparr>id_note = Num 2, title = Str ''c'', content = Str ''d'', user = Str ''u2''\<rparr>]\<rparr>) \<and>
   put_id_notes (\<lambda>i t c u st. \<lparr>notes_list = []\<rparr>)
     \<lparr>params_id = Num 1, body_title = Str ''A'', body_content = Undefined,
       body_user = Undefined, authorization = Str ''u2''\<rparr>
     \<lparr>notes_list =
        [\<lparr>id_note = Num 2, title = Str ''c'', content = Str ''d'', user = Str ''u2''\<rparr>]\<rparr> =
     (\<lparr>status = 404, sent = Nicht_gefunden (Num 1)\<rparr>,
      \<lparr>notes_list =
        [\<lparr>id_note = Num 2, title = Str ''c'', content = Str ''d'', user = Str ''u2''\<rparr>]\<rparr>)"
  using missing_id_answers_404_untouched
    [of "\<lparr>notes_list =
          [\<lparr>id_note = Num 2, title = Str ''c'', content = Str ''d'', user = Str ''u2''\<rparr>]\<rparr>"
        "\<lparr>params_id = Num 1, body_title = Str ''A'', body_content = Undefined,
          body_user = Undefined, authorization = Str ''u2''\<rparr>"
        "\<lambda>i t c u st. \<lparr>notes_list = []\<rparr>"
        "\<lambda>i st. \<lparr>notes_list = []\<rparr>"]
  by simp

section \<open>Ids over a run of requests\<close>

text \<open>\<open>PUT /:id\<close> and \<open>PATCH /:id\<close> on a stored id leave the ids of the store as they were.\<close>

lemma update_keeps_ids:
  assumes "n \<in> set (notes_list st)" and "strict_eq (id_note n) (params_id req)"
  shows "set (map id_note (notes_list (snd (put_id_kommentaren req st)))) =
      set (map id_note (notes_list st))"
    and "set (map id_note (notes_list (snd (patch_id_kommentaren req st)))) =
      set (map id_note (notes_list st))"
proof -
  from assms obtain old where old: "getNoteById (params_id req) st = Some old"
    by (rule getNoteById_present)
  from assms(2) have "id_note n = params_id req"
    by (rule strict_eq_same)
  with assms(1) have here: "params_id req \<in> id_note ` set (notes_list st)"
    by force
  have rest: "id_note ` {m \<in> set (notes_list st). \<not> strict_eq (id_note m) (params_id req)}
      \<subseteq> id_note ` set (notes_list st)"
    by blast
  have all: "id_note ` set (notes_list st) \<subseteq>
      insert (params_id req)
        (id_note ` {m \<in> set (notes_list st). \<not> strict_eq (id_note m) (params_id req)})"
  proof
    fix i assume "i \<in> id_note ` set (notes_list st)"
    then obtain m where m: "m \<in> set (notes_list st)" and i: "i = id_note m"
      by blast
    show "i \<in> insert (params_id req)
        (id_note ` {m \<in> set (notes_list st). \<not> strict_eq (id_note m) (params_id req)})"
    proof (cases "strict_eq (id_note m) (params_id req)")
      case True
      then have "id_note m = params_id req"
        by (rule strict_eq_same)
      with i show ?thesis by simp
    next
      case False
      with m i show ?thesis by blast
    qed
  qed
  from here rest all
  have ids: "insert (params_id req)
      (id_note ` {m \<in> set (notes_list st). \<not> strict_eq (id_note m) (params_id req)}) =
      id_note ` set (notes_list st)"
    by blast
  show "set (map id_note (notes_list (snd (put_id_kommentaren req st)))) =
      set (map id_note (notes_list st))"
    using ids by (simp add: put_id_kommentaren_found [OF old])
  show "set (map id_note (notes_list (snd (patch_id_kommentaren req st)))) =
      set (map id_note (notes_list st))"
    using ids by (simp add: patch_id_kommentaren_found [OF old])
qed

text \<open>
  C1. Starting from the empty collection, two creations, the deletion of note 1 and a
  third creation leave two notes in the store that both carry the id 2: the third
  creation counts the one note that is left and assigns 1 + 1.
\<close>

theorem ids_collide_after_delete:
  "snd (serve
     [POST \<lparr>params_id = NaN, body_title = Str ''A'', body_content = Str ''B'',
        body_user = Str ''u1'', authorization = Undefined\<rparr>,
      POST \<lparr>params_id = NaN, body_title = Str ''C'', body_content = Str ''D'',
        body_user = Str ''u1'', authorization = Undefined\<rparr>,
      DELETE_id \<lparr>params_id = Num 1, body_title = Undefined, body_content = Undefined,
        body_user = Undefined, authorization = Undefined\<rparr>,
      POST \<lparr>params_id = NaN, body_title = Str ''E'', body_content = Str ''F'',
        body_user = Str ''u1'', authorization = Undefined\<rparr>]
     \<lparr>notes_list = []\<rparr>) =
   \<lparr>notes_list =
     [\<lparr>id_note = Num 2, title = Str ''C'', content = Str ''D'', user = Str ''u1''\<rparr>,
      \<lparr>id_note = Num 2, title = Str ''E'', content = Str ''F'', user = Str ''u1''\<rparr>]\<rparr> \<and>
   \<not> distinct (map id_note (notes_list (snd (serve
     [POST \<lparr>params_id = NaN, body_title = Str ''A'', body_content = Str ''B'',
        body_user = Str ''u1'', authorization = Undefined\<rparr>,
      POST \<lparr>params_id = NaN, body_title = Str ''C'', body_content = Str ''D'',
        body_user = Str ''u1'', authorization = Undefined\<rparr>,
      DELETE_id \<lparr>params_id = Num 1, body_title = Undefined, body_content = Undefined,
        body_user = Undefined, authorization = Undefined\<rparr>,
      POST \<lparr>params_id = NaN, body_title = Str ''E'', body_content = Str ''F'',
        body_user = Str ''u1'', authorization = Undefined\<rparr>]
     \<lparr>notes_list = []\<rparr>))))"
  by (simp add: post_kommentaren_def delete_id_kommentaren_def getNoteById_def getNotes_def
      writeNotesToFile_def new_Note_def Let_def)

end
